theory Spec2Isabelle
  imports Main
begin

section \<open>Python values\<close>

text \<open>
  The values that reach the model layer: what a decoded request body and a database row
  hold. A \<open>Decimal\<close> is Python's \<open>decimal.Decimal\<close>: a sign (\<open>True\<close> for negative), a
  coefficient and an exponent, or one of the special values. \<open>PObject\<close> stands for any
  other object (a float, a date, ...); it is known by its truth value and an identity tag.
\<close>

datatype decimal =
    Dec bool nat int
  | DecInf bool
  | DecNaN bool bool nat

datatype pyval =
    PNone
  | PBool bool
  | PInt int
  | PStr string
  | PDecimal decimal
  | PList "pyval list"
  | PDict "(string \<times> pyval) list"
  | PObject bool nat

text \<open>Truth value testing, as \<open>if value:\<close> does it.\<close>

fun decimal_bool :: "decimal \<Rightarrow> bool" where
  "decimal_bool (Dec s c e) = (c \<noteq> 0)"
| "decimal_bool (DecInf s) = True"
| "decimal_bool (DecNaN s sig p) = True"

fun truthy :: "pyval \<Rightarrow> bool" where
  "truthy PNone = False"
| "truthy (PBool b) = b"
| "truthy (PInt i) = (i \<noteq> 0)"
| "truthy (PStr s) = (s \<noteq> [])"
| "truthy (PDecimal d) = decimal_bool d"
| "truthy (PList xs) = (xs \<noteq> [])"
| "truthy (PDict kvs) = (kvs \<noteq> [])"
| "truthy (PObject b i) = b"

type_synonym pydict = "string \<rightharpoonup> pyval"

text \<open>\<open>dictionary.get(key, default)\<close>\<close>

definition dict_get :: "pydict \<Rightarrow> string \<Rightarrow> pyval \<Rightarrow> pyval" where
  "dict_get d k dflt = (case d k of None \<Rightarrow> dflt | Some v \<Rightarrow> v)"


section \<open>Resource classes and instances\<close>

datatype error = AttributeError | IndexError | OperationalError

text \<open>
  The table's meta-information as SQLAlchemy provides it: \<open>columns\<close> is
  \<open>__table__.columns.keys()\<close>, \<open>primary_key_columns\<close> the names of
  \<open>__table__.primary_key.columns.values()\<close>, in order.
\<close>

record table =
  columns :: "string list"
  primary_key_columns :: "string list"

text \<open>
  A class derived from \<open>Model\<close>. The three class attributes default to \<open>None\<close> in the
  source; \<open>dunder_table\<close> is \<open>None\<close> as long as reflection has not populated it.
\<close>

record model_class =
  dunder_endpoint :: "string option"
  dunder_tablename :: "string option"
  dunder_table :: "table option"

text \<open>
  An instance: its class and its attribute dictionary, which holds the values of the
  instance's data attributes, the columns among them. The members of \<open>Model\<close> (its
  methods and the class attributes above) are those of the class: an instance with an
  attribute that has the name of one of them, and so hides it, is not described.
\<close>

record resource =
  klass :: model_class
  attrs :: pydict

text \<open>\<open>getattr(self, name, default)\<close> and \<open>setattr(self, name, value)\<close>\<close>

definition py_getattr :: "resource \<Rightarrow> string \<Rightarrow> pyval \<Rightarrow> pyval" where
  "py_getattr self name dflt = (case attrs self name of None \<Rightarrow> dflt | Some v \<Rightarrow> v)"

definition py_setattr :: "resource \<Rightarrow> string \<Rightarrow> pyval \<Rightarrow> resource" where
  "py_setattr self name v = self\<lparr>attrs := (attrs self)(name \<mapsto> v)\<rparr>"

text \<open>
  \<open>self.__table__.columns.keys()\<close>: an \<open>AttributeError\<close> when \<open>__table__\<close> is still
  \<open>None\<close>.
\<close>

definition table_columns :: "resource \<Rightarrow> error + string list" where
  "table_columns self =
     (case dunder_table (klass self) of
        None \<Rightarrow> Inl AttributeError
      | Some t \<Rightarrow> Inr (columns t))"


section \<open>Partial update and full replace\<close>

text \<open>
  \<open>Model.from_dict\<close>: the loop over the column names, then the method. The list of
  names is evaluated once, before the first iteration.
\<close>

fun from_dict_loop :: "pydict \<Rightarrow> string list \<Rightarrow> resource \<Rightarrow> resource" where
  "from_dict_loop dictionary [] self = self"
| "from_dict_loop dictionary (column # rest) self =
     (let v = dict_get dictionary column PNone
      in from_dict_loop dictionary rest
           (if truthy v then py_setattr self column v else self))"

definition from_dict :: "resource \<Rightarrow> pydict \<Rightarrow> error + resource" where
  "from_dict self dictionary =
     (case table_columns self of
        Inl e \<Rightarrow> Inl e
      | Inr cols \<Rightarrow> Inr (from_dict_loop dictionary cols self))"

text \<open>\<open>Model.replace\<close>: every column is set to \<open>None\<close>, then \<open>from_dict\<close> runs.\<close>

fun clear_loop :: "string list \<Rightarrow> resource \<Rightarrow> resource" where
  "clear_loop [] self = self"
| "clear_loop (column # rest) self = clear_loop rest (py_setattr self column PNone)"

definition replace :: "resource \<Rightarrow> pydict \<Rightarrow> error + resource" where
  "replace self dictionary =
     (case table_columns self of
        Inl e \<Rightarrow> Inl e
      | Inr cols \<Rightarrow> from_dict (clear_loop cols self) dictionary)"


section \<open>Text of values\<close>

text \<open>
  \<open>str.lower\<close> on the bytes of a table name: the letters \<open>A\<close> to \<open>Z\<close> are mapped to
  \<open>a\<close> to \<open>z\<close>, every other byte is unchanged.
\<close>

definition lower_char :: "char \<Rightarrow> char" where
  "lower_char c =
     (let n = (of_char c :: nat) in if 65 \<le> n \<and> n \<le> 90 then char_of (n + 32) else c)"

definition lower :: "string \<Rightarrow> string" where
  "lower s = map lower_char s"

text \<open>The decimal digits of a natural number and of an integer (\<open>str\<close> of an \<open>int\<close>).\<close>

definition digit_char :: "nat \<Rightarrow> char" where
  "digit_char n = char_of (48 + n)"

fun nat_str :: "nat \<Rightarrow> string" where
  "nat_str n = (if n < 10 then [digit_char n] else nat_str (n div 10) @ [digit_char (n mod 10)])"

declare nat_str.simps [simp del]

definition int_str :: "int \<Rightarrow> string" where
  "int_str i = (if i < 0 then ''-'' @ nat_str (nat (- i)) else nat_str (nat i))"

text \<open>\<open>"%+d" % i\<close>: the sign is always written.\<close>

definition signed_str :: "int \<Rightarrow> string" where
  "signed_str i = (if i < 0 then ''-'' @ nat_str (nat (- i)) else ''+'' @ nat_str (nat i))"

text \<open>
  \<open>str\<close> of a \<open>Decimal\<close> (\<open>Decimal.__str__\<close> of the standard library, in the default
  context): plain notation when the exponent is at most 0 and the number has more than
  -6 digits left of the point, scientific notation with one digit before the point
  otherwise. The coefficient's digits are written as they are: nothing is rounded.
\<close>

definition sign_str :: "bool \<Rightarrow> string" where
  "sign_str negative = (if negative then ''-'' else [])"

fun decimal_str :: "decimal \<Rightarrow> string" where
  "decimal_str (DecInf s) = sign_str s @ ''Infinity''"
| "decimal_str (DecNaN s signaling payload) =
     sign_str s @ (if signaling then ''sNaN'' else ''NaN'') @
     (if payload = 0 then [] else nat_str payload)"
| "decimal_str (Dec s coefficient e) =
     (let digits = nat_str coefficient;
          len = int (length digits);
          leftdigits = e + len;
          dotplace = (if e \<le> 0 \<and> leftdigits > - 6 then leftdigits else 1);
          intpart =
            (if dotplace \<le> 0 then ''0''
             else if dotplace \<ge> len then digits @ replicate (nat (dotplace - len)) CHR ''0''
             else take (nat dotplace) digits);
          fracpart =
            (if dotplace \<le> 0 then ''.'' @ replicate (nat (- dotplace)) CHR ''0'' @ digits
             else if dotplace \<ge> len then []
             else ''.'' @ drop (nat dotplace) digits);
          exp = (if leftdigits = dotplace then [] else ''E'' @ signed_str (leftdigits - dotplace))
      in sign_str s @ intpart @ fracpart @ exp)"

text \<open>
  \<open>str(value)\<close>, which is also what \<open>'{}'.format(value)\<close> inserts. The text of a list,
  of a dict or of another object is the interpreter's business: \<open>other\<close> is the function
  that gives it.
\<close>

fun py_str :: "(pyval \<Rightarrow> string) \<Rightarrow> pyval \<Rightarrow> string" where
  "py_str other PNone = ''None''"
| "py_str other (PBool b) = (if b then ''True'' else ''False'')"
| "py_str other (PInt i) = int_str i"
| "py_str other (PStr s) = s"
| "py_str other (PDecimal d) = decimal_str d"
| "py_str other v = other v"


section \<open>Endpoint, primary key, URI and links\<close>

text \<open>
  \<open>Model.endpoint\<close>. With neither \<open>__endpoint__\<close> nor \<open>__tablename__\<close> set,
  \<open>None.lower()\<close> raises an \<open>AttributeError\<close>.
\<close>

definition endpoint :: "model_class \<Rightarrow> error + string" where
  "endpoint cls =
     (case dunder_endpoint cls of
        Some e \<Rightarrow> Inr e
      | None \<Rightarrow>
          (case dunder_tablename cls of
             None \<Rightarrow> Inl AttributeError
           | Some name \<Rightarrow> Inr (lower name @ ''s'')))"

text \<open>
  \<open>Model.primary_key\<close>: the name of the first primary-key column; an \<open>IndexError\<close>
  when there is none, an \<open>AttributeError\<close> when \<open>__table__\<close> is \<open>None\<close>.
\<close>

definition primary_key :: "model_class \<Rightarrow> error + string" where
  "primary_key cls =
     (case dunder_table cls of
        None \<Rightarrow> Inl AttributeError
      | Some t \<Rightarrow>
          (case primary_key_columns t of
             [] \<Rightarrow> Inl IndexError
           | name # _ \<Rightarrow> Inr name))"

text \<open>\<open>Model.resource_uri\<close>: the primary key is looked up first, then the endpoint.\<close>

definition resource_uri :: "(pyval \<Rightarrow> string) \<Rightarrow> resource \<Rightarrow> error + string" where
  "resource_uri other self =
     (case primary_key (klass self) of
        Inl e \<Rightarrow> Inl e
      | Inr pk \<Rightarrow>
          (let primary_key_value = py_getattr self pk PNone
           in case endpoint (klass self) of
                Inl e \<Rightarrow> Inl e
              | Inr ep \<Rightarrow> Inr (''/'' @ ep @ ''/'' @ py_str other primary_key_value)))"

text \<open>\<open>Model.links\<close>: the list with the one \<open>self\<close> link.\<close>

definition links :: "(pyval \<Rightarrow> string) \<Rightarrow> resource \<Rightarrow> error + pyval list" where
  "links other self =
     (case resource_uri other self of
        Inl e \<Rightarrow> Inl e
      | Inr uri \<Rightarrow> Inr [PDict [(''rel'', PStr ''self''), (''uri'', PStr uri)]])"


section \<open>Serialisation\<close>

text \<open>
  \<open>Model.as_dict\<close>: the loop stores each column's attribute (\<open>None\<close> when unset) and
  replaces a \<open>Decimal\<close> by its \<open>str\<close>; the \<open>links\<close> entry is stored last.
\<close>

fun as_dict_loop :: "resource \<Rightarrow> string list \<Rightarrow> pydict \<Rightarrow> pydict" where
  "as_dict_loop self [] result_dict = result_dict"
| "as_dict_loop self (column # rest) result_dict =
     (let v = py_getattr self column PNone;
          result_dict1 = result_dict(column \<mapsto> v)
      in as_dict_loop self rest
           (case v of
              PDecimal d \<Rightarrow> result_dict1(column \<mapsto> PStr (decimal_str d))
            | _ \<Rightarrow> result_dict1))"

definition as_dict :: "(pyval \<Rightarrow> string) \<Rightarrow> resource \<Rightarrow> error + pydict" where
  "as_dict other self =
     (case table_columns self of
        Inl e \<Rightarrow> Inl e
      | Inr cols \<Rightarrow>
          (let result_dict = as_dict_loop self cols Map.empty
           in case links other self of
                Inl e \<Rightarrow> Inl e
              | Inr ls \<Rightarrow> Inr (result_dict(''links'' \<mapsto> PList ls))))"


section \<open>The registry\<close>

text \<open>
  The application object with its \<open>endpoint_classes\<close> attribute (\<open>None\<close> until the first
  registration), and the argument of \<open>register\<close>: one class, or a list or tuple of them.
\<close>

record app =
  endpoint_classes :: "(string \<rightharpoonup> model_class) option"

datatype registrable = Single model_class | Sequence "model_class list"

text \<open>
  The loop over a sequence of classes. An \<open>endpoint()\<close> that raises ends the loop; the
  entries stored before stay in the registry.
\<close>

fun register_entries ::
  "model_class list \<Rightarrow> (string \<rightharpoonup> model_class) \<Rightarrow> error option \<times> (string \<rightharpoonup> model_class)" where
  "register_entries [] reg = (None, reg)"
| "register_entries (entry # rest) reg =
     (case endpoint entry of
        Inl e \<Rightarrow> (Some e, reg)
      | Inr name \<Rightarrow> register_entries rest (reg(name \<mapsto> entry)))"

text \<open>
  \<open>register\<close>. \<open>Model.prepare(db.engine)\<close> is SQLAlchemy's reflection: \<open>prepare\<close> is its
  outcome, \<open>None\<close> when it returns and the error when it raises; it runs only when the
  block before it has raised nothing. The result is the error raised, if any, and the
  application object as the call leaves it.
\<close>

definition register :: "error option \<Rightarrow> registrable \<Rightarrow> app \<Rightarrow> error option \<times> app" where
  "register prepare cls current_app =
     (let reg0 = (case endpoint_classes current_app of None \<Rightarrow> Map.empty | Some m \<Rightarrow> m);
          (err, reg1) =
            (case cls of
               Sequence entries \<Rightarrow> register_entries entries reg0
             | Single c \<Rightarrow>
                 (case endpoint c of
                    Inl e \<Rightarrow> (Some e, reg0)
                  | Inr name \<Rightarrow> (None, reg0(name \<mapsto> c))))
      in (case err of Some e \<Rightarrow> Some e | None \<Rightarrow> prepare,
          current_app\<lparr>endpoint_classes := Some reg1\<rparr>))"


section \<open>Reading a Decimal back from its text\<close>

text \<open>
  What the text of a \<open>Decimal\<close> says, read back: the sign, then \<open>Infinity\<close>, \<open>NaN\<close> or
  \<open>sNaN\<close> with its payload, or the digits with the place of the point and the exponent
  after \<open>E\<close>. It serves to state that \<open>str\<close> of a \<open>Decimal\<close> loses nothing.
\<close>

definition is_digit :: "char \<Rightarrow> bool" where
  "is_digit ch = (48 \<le> (of_char ch :: nat) \<and> (of_char ch :: nat) \<le> 57)"

definition digits_value :: "string \<Rightarrow> nat" where
  "digits_value ds = foldl (\<lambda>a ch. 10 * a + (of_char ch - 48)) 0 ds"

definition signed_value :: "string \<Rightarrow> int" where
  "signed_value x =
     (case x of
        [] \<Rightarrow> 0
      | ch # ds \<Rightarrow> if ch = CHR ''-'' then - int (digits_value ds) else int (digits_value ds))"

definition decimal_parse :: "string \<Rightarrow> decimal" where
  "decimal_parse written =
     (let negative = (written \<noteq> [] \<and> hd written = CHR ''-'');
          body = (if negative then tl written else written);
          mantissa = takeWhile (\<lambda>ch. ch \<noteq> CHR ''E'') body;
          exponent = drop (length mantissa + 1) body;
          digits = filter (\<lambda>ch. ch \<noteq> CHR ''.'') mantissa;
          places = length (dropWhile (\<lambda>ch. ch \<noteq> CHR ''.'') mantissa) - 1
      in if body \<noteq> [] \<and> hd body = CHR ''I'' then DecInf negative
         else if body \<noteq> [] \<and> hd body = CHR ''N'' then DecNaN negative False (digits_value (drop 3 body))
         else if body \<noteq> [] \<and> hd body = CHR ''s'' then DecNaN negative True (digits_value (drop 4 body))
         else if CHR ''E'' \<in> set body
           then Dec negative (digits_value digits) (signed_value exponent + 1 - int (length digits))
           else Dec negative (digits_value digits) (- int places))"


section \<open>Serialise, then update another instance\<close>

text \<open>
  \<open>other.from_dict(self.as_dict())\<close>, and the fresh instance of a class: no attribute
  set yet.
\<close>

definition round_trip :: "(pyval \<Rightarrow> string) \<Rightarrow> resource \<Rightarrow> resource \<Rightarrow> error + resource" where
  "round_trip other self target =
     (case as_dict other self of
        Inl e \<Rightarrow> Inl e
      | Inr d \<Rightarrow> from_dict target d)"

definition fresh :: "model_class \<Rightarrow> resource" where
  "fresh cls = \<lparr>klass = cls, attrs = Map.empty\<rparr>"

text \<open>Reading one attribute of a result.\<close>

definition attr_of :: "error + resource \<Rightarrow> string \<Rightarrow> error + pyval" where
  "attr_of r name = (case r of Inl e \<Rightarrow> Inl e | Inr self \<Rightarrow> Inr (py_getattr self name PNone))"


section \<open>Examples\<close>

text \<open>In the examples no list, dict or other object is ever turned into text.\<close>

definition opaque :: "pyval \<Rightarrow> string" where
  "opaque v = ''<object>''"

definition person_table :: table where
  "person_table = \<lparr>columns = [''id'', ''name''], primary_key_columns = [''id'']\<rparr>"

definition person_class :: model_class where
  "person_class = \<lparr>dunder_endpoint = None, dunder_tablename = Some ''person'',
     dunder_table = Some person_table\<rparr>"


definition customer_class :: model_class where
  "customer_class = \<lparr>dunder_endpoint = Some ''persons'', dunder_tablename = Some ''Customer'',
     dunder_table = None\<rparr>"

definition person3 :: resource where
  "person3 = \<lparr>klass = person_class, attrs = [''id'' \<mapsto> PInt 3, ''name'' \<mapsto> PStr ''Ann'']\<rparr>"

definition person_new :: resource where
  "person_new = \<lparr>klass = person_class, attrs = [''name'' \<mapsto> PStr ''Bob'']\<rparr>"

definition product_table :: table where
  "product_table = \<lparr>columns = [''id'', ''price''], primary_key_columns = [''id'']\<rparr>"

definition product_class :: model_class where
  "product_class = \<lparr>dunder_endpoint = None, dunder_tablename = Some ''product'',
     dunder_table = Some product_table\<rparr>"

definition product7 :: resource where
  "product7 = \<lparr>klass = product_class,
     attrs = [''id'' \<mapsto> PInt 7, ''price'' \<mapsto> PDecimal (Dec False 1250 (- 2))]\<rparr>"

definition item_table :: table where
  "item_table = \<lparr>columns = [''id'', ''name'', ''quantity''], primary_key_columns = [''id'']\<rparr>"

definition item_class :: model_class where
  "item_class = \<lparr>dunder_endpoint = None, dunder_tablename = Some ''Item'',
     dunder_table = Some item_table\<rparr>"

definition item5 :: resource where
  "item5 = \<lparr>klass = item_class,
     attrs = [''id'' \<mapsto> PInt 3, ''name'' \<mapsto> PStr ''bolt'', ''quantity'' \<mapsto> PInt 5,
              ''note'' \<mapsto> PStr ''unmapped'']\<rparr>"


section \<open>The loops\<close>

lemma klass_py_setattr [simp]: "klass (py_setattr self name v) = klass self"
  by (simp add: py_setattr_def)

lemma attrs_py_setattr [simp]: "attrs (py_setattr self name v) = (attrs self)(name \<mapsto> v)"
  by (simp add: py_setattr_def)

lemma klass_from_dict_loop [simp]: "klass (from_dict_loop d cols self) = klass self"
  by (induction cols arbitrary: self) (simp_all add: Let_def)

lemma attrs_from_dict_loop:
  "attrs (from_dict_loop d cols self) c =
     (if c \<in> set cols \<and> truthy (dict_get d c PNone) then Some (dict_get d c PNone)
      else attrs self c)"
  by (induction cols arbitrary: self) (auto simp: Let_def)

lemma klass_clear_loop [simp]: "klass (clear_loop cols self) = klass self"
  by (induction cols arbitrary: self) simp_all

lemma attrs_clear_loop:
  "attrs (clear_loop cols self) c = (if c \<in> set cols then Some PNone else attrs self c)"
  by (induction cols arbitrary: self) auto

lemma table_columns_Some:
  "dunder_table (klass self) = Some t \<Longrightarrow> table_columns self = Inr (columns t)"
  by (simp add: table_columns_def)

lemma from_dict_Some:
  "dunder_table (klass self) = Some t \<Longrightarrow>
   from_dict self d = Inr (from_dict_loop d (columns t) self)"
  by (simp add: from_dict_def table_columns_Some)

lemma replace_Some:
  "dunder_table (klass self) = Some t \<Longrightarrow>
   replace self d = Inr (from_dict_loop d (columns t) (clear_loop (columns t) self))"
  by (simp add: replace_def from_dict_def table_columns_def)


section \<open>Partial update: only truthy values are applied\<close>

text \<open>
  C1. On an instance whose table is known, \<open>from_dict\<close> returns, and for every column of
  the table the attribute afterwards is the mapping's value when the mapping holds a
  truthy value under the column's name, and the prior attribute otherwise (the name is
  absent, or its value is falsy). \<open>None\<close>, \<open>0\<close>, the empty string and the empty
  collections are falsy.
\<close>

theorem from_dict_sets_truthy_only:
  assumes "dunder_table (klass self) = Some t" and "c \<in> set (columns t)"
  shows "(\<exists>self'. from_dict self dictionary = Inr self' \<and>
           attrs self' c =
             (case dictionary c of
                None \<Rightarrow> attrs self c
              | Some v \<Rightarrow> if truthy v then Some v else attrs self c)) \<and>
         \<not> truthy PNone \<and> \<not> truthy (PInt 0) \<and> \<not> truthy (PStr []) \<and>
         \<not> truthy (PList []) \<and> \<not> truthy (PDict [])"
  using assms
  by (auto simp: from_dict_Some attrs_from_dict_loop dict_get_def split: option.splits)

text \<open>The instance with \<open>quantity = 5\<close> keeps it under \<open>from_dict({"quantity": 0})\<close>.\<close>

theorem from_dict_sets_truthy_only_witness:
  "dunder_table (klass item5) = Some item_table \<and> ''quantity'' \<in> set (columns item_table) \<and>
   (\<exists>self'. from_dict item5 [''quantity'' \<mapsto> PInt 0] = Inr self' \<and>
      attrs self' ''quantity'' = Some (PInt 5))"
proof -
  have t: "dunder_table (klass item5) = Some item_table"
    by (simp add: item5_def item_class_def)
  have c: "''quantity'' \<in> set (columns item_table)"
    by (simp add: item_table_def)
  have "attrs item5 ''quantity'' = Some (PInt 5)"
    by (simp add: item5_def)
  with from_dict_sets_truthy_only [OF t c, of "[''quantity'' \<mapsto> PInt 0]"] t c
  show ?thesis by simp
qed


section \<open>Full replace\<close>

text \<open>
  C2. On an instance whose table is known, \<open>replace\<close> returns, and afterwards every
  column of the table holds the mapping's value when that value is truthy, and \<open>None\<close>
  when the column's name is absent from the mapping or maps to a falsy value. With the
  empty mapping every column ends up \<open>None\<close>.
\<close>

theorem replace_sets_or_clears:
  assumes "dunder_table (klass self) = Some t" and "c \<in> set (columns t)"
  shows "(\<exists>self'. replace self dictionary = Inr self' \<and>
           attrs self' c =
             (case dictionary c of
                None \<Rightarrow> Some PNone
              | Some v \<Rightarrow> if truthy v then Some v else Some PNone)) \<and>
         (\<exists>self'. replace self Map.empty = Inr self' \<and> attrs self' c = Some PNone)"
  using assms
  by (auto simp: replace_Some attrs_from_dict_loop attrs_clear_loop dict_get_def
           split: option.splits)

theorem replace_sets_or_clears_witness:
  "dunder_table (klass item5) = Some item_table \<and> ''quantity'' \<in> set (columns item_table) \<and>
   (\<exists>self'. replace item5 [''quantity'' \<mapsto> PInt 0, ''name'' \<mapsto> PStr ''nut''] = Inr self' \<and>
      attrs self' ''quantity'' = Some PNone) \<and>
   (\<exists>self'. replace item5 Map.empty = Inr self' \<and> attrs self' ''quantity'' = Some PNone)"
proof -
  have t: "dunder_table (klass item5) = Some item_table"
    by (simp add: item5_def item_class_def)
  have c: "''quantity'' \<in> set (columns item_table)"
    by (simp add: item_table_def)
  from replace_sets_or_clears
         [OF t c, of "[''quantity'' \<mapsto> PInt 0, ''name'' \<mapsto> PStr ''nut'']"] t c
  show ?thesis by simp
qed


section \<open>Replace is idempotent\<close>

lemma from_dict_loop_after_replace:
  "from_dict_loop d cols (clear_loop cols (from_dict_loop d cols (clear_loop cols self))) =
   from_dict_loop d cols (clear_loop cols self)"
proof (rule resource.equality)
  show "attrs (from_dict_loop d cols (clear_loop cols (from_dict_loop d cols (clear_loop cols self)))) =
        attrs (from_dict_loop d cols (clear_loop cols self))"
    by (rule ext) (simp add: attrs_from_dict_loop attrs_clear_loop)
qed simp_all

text \<open>
  C9. On an instance whose table is known, \<open>replace\<close> returns, and a second \<open>replace\<close>
  with the same mapping returns the very same instance state: the class and every
  attribute, the table's columns among them, are as the first call left them.
\<close>

theorem replace_idempotent:
  assumes "dunder_table (klass self) = Some t"
  shows "\<exists>self'. replace self dictionary = Inr self' \<and> replace self' dictionary = Inr self'"
proof -
  let ?s = "from_dict_loop dictionary (columns t) (clear_loop (columns t) self)"
  have 1: "replace self dictionary = Inr ?s"
    using assms by (rule replace_Some)
  have "dunder_table (klass ?s) = Some t"
    using assms by simp
  then have "replace ?s dictionary =
      Inr (from_dict_loop dictionary (columns t) (clear_loop (columns t) ?s))"
    by (rule replace_Some)
  then have "replace ?s dictionary = Inr ?s"
    by (simp only: from_dict_loop_after_replace)
  with 1 show ?thesis by blast
qed

theorem replace_idempotent_witness:
  "dunder_table (klass item5) = Some item_table \<and>
   (\<exists>self'. replace item5 [''quantity'' \<mapsto> PInt 0, ''name'' \<mapsto> PStr ''nut''] = Inr self' \<and>
      replace self' [''quantity'' \<mapsto> PInt 0, ''name'' \<mapsto> PStr ''nut''] = Inr self')"
proof -
  have t: "dunder_table (klass item5) = Some item_table"
    by (simp add: item5_def item_class_def)
  from replace_idempotent [OF t, of "[''quantity'' \<mapsto> PInt 0, ''name'' \<mapsto> PStr ''nut'']"] t
  show ?thesis by simp
qed


section \<open>Only the table's columns are written\<close>

lemma from_dict_loop_cong:
  "\<forall>c\<in>set cols. d c = d' c \<Longrightarrow> from_dict_loop d cols self = from_dict_loop d' cols self"
  by (induction cols arbitrary: self) (simp_all add: Let_def dict_get_def)

text \<open>
  C10. On an instance whose table is known, \<open>from_dict\<close> and \<open>replace\<close> return an
  instance of the same class on which every attribute that is not a column of the table
  is as before; and the keys of the mapping that are not column names have no effect:
  the result is the one for the mapping restricted to the column names.
\<close>

theorem updates_touch_columns_only:
  assumes "dunder_table (klass self) = Some t"
  shows "\<exists>s1 s2. from_dict self dictionary = Inr s1 \<and> replace self dictionary = Inr s2 \<and>
           klass s1 = klass self \<and> klass s2 = klass self \<and>
           (\<forall>k. k \<notin> set (columns t) \<longrightarrow> attrs s1 k = attrs self k \<and> attrs s2 k = attrs self k) \<and>
           from_dict self (dictionary |` set (columns t)) = Inr s1 \<and>
           replace self (dictionary |` set (columns t)) = Inr s2"
proof -
  have "from_dict_loop (dictionary |` set (columns t)) (columns t) s =
        from_dict_loop dictionary (columns t) s" for s
    by (rule from_dict_loop_cong) simp
  with assms show ?thesis
    by (simp add: from_dict_Some replace_Some attrs_from_dict_loop attrs_clear_loop)
qed

theorem updates_touch_columns_only_witness:
  "dunder_table (klass item5) = Some item_table \<and>
   (\<exists>s1 s2. from_dict item5 [''note'' \<mapsto> PStr ''changed'', ''color'' \<mapsto> PStr ''red''] = Inr s1 \<and>
      replace item5 [''note'' \<mapsto> PStr ''changed'', ''color'' \<mapsto> PStr ''red''] = Inr s2 \<and>
      attrs s1 ''note'' = Some (PStr ''unmapped'') \<and> attrs s2 ''note'' = Some (PStr ''unmapped'') \<and>
      attrs s1 ''color'' = None \<and> attrs s2 ''color'' = None)"
proof -
  have t: "dunder_table (klass item5) = Some item_table"
    by (simp add: item5_def item_class_def)
  have n: "''note'' \<notin> set (columns item_table)" "''color'' \<notin> set (columns item_table)"
    by (simp_all add: item_table_def)
  have a: "attrs item5 ''note'' = Some (PStr ''unmapped'')" "attrs item5 ''color'' = None"
    by (simp_all add: item5_def)
  from updates_touch_columns_only
         [OF t, of "[''note'' \<mapsto> PStr ''changed'', ''color'' \<mapsto> PStr ''red'']"]
  obtain s1 s2 where
    "from_dict item5 [''note'' \<mapsto> PStr ''changed'', ''color'' \<mapsto> PStr ''red''] = Inr s1"
    "replace item5 [''note'' \<mapsto> PStr ''changed'', ''color'' \<mapsto> PStr ''red''] = Inr s2"
    "\<forall>k. k \<notin> set (columns item_table) \<longrightarrow>
        attrs s1 k = attrs item5 k \<and> attrs s2 k = attrs item5 k"
    by blast
  with n a t show ?thesis by simp
qed


section \<open>Endpoint names\<close>






section \<open>Resource URI and links\<close>

lemma primary_key_Some:
  "dunder_table cls = Some t \<Longrightarrow> primary_key_columns t = pk # more_keys \<Longrightarrow>
   primary_key cls = Inr pk"
  by (simp add: primary_key_def)

lemma resource_uri_Some:
  "primary_key (klass self) = Inr pk \<Longrightarrow> endpoint (klass self) = Inr ep \<Longrightarrow>
   resource_uri other self = Inr (''/'' @ ep @ ''/'' @ py_str other (py_getattr self pk PNone))"
  by (simp add: resource_uri_def)

text \<open>
  C5, as the code has it. On an instance whose class has a primary key and an endpoint,
  \<open>resource_uri()\<close> returns \<open>/<endpoint>/<key>\<close> where \<open><key>\<close> is \<open>str\<close> of the
  current value of the primary-key attribute, read with the default \<open>None\<close>: when the
  instance has no primary-key value yet, the key segment is the text \<open>None\<close>.
  \<open>links()\<close> is the one \<open>self\<close> link with that URI.
\<close>

theorem resource_uri_path:
  assumes "primary_key (klass self) = Inr pk" and "endpoint (klass self) = Inr ep"
  shows "resource_uri other self =
           Inr (''/'' @ ep @ ''/'' @
                py_str other (case attrs self pk of None \<Rightarrow> PNone | Some v \<Rightarrow> v)) \<and>
         (attrs self pk = None \<longrightarrow> resource_uri other self = Inr (''/'' @ ep @ ''/None'')) \<and>
         links other self =
           Inr [PDict [(''rel'', PStr ''self''),
                       (''uri'', PStr (''/'' @ ep @ ''/'' @
                          py_str other (case attrs self pk of None \<Rightarrow> PNone | Some v \<Rightarrow> v)))]]"
  using assms by (simp add: links_def resource_uri_Some py_getattr_def)

theorem resource_uri_path_witness:
  "primary_key (klass person3) = Inr ''id'' \<and> endpoint (klass person3) = Inr ''persons'' \<and>
   resource_uri opaque person3 = Inr ''/persons/3'' \<and>
   links opaque person3 = Inr [PDict [(''rel'', PStr ''self''), (''uri'', PStr ''/persons/3'')]] \<and>
   primary_key (klass person_new) = Inr ''id'' \<and> endpoint (klass person_new) = Inr ''persons'' \<and>
   attrs person_new ''id'' = None \<and>
   resource_uri opaque person_new = Inr ''/persons/None''"
proof -
  have p: "primary_key (klass person3) = Inr ''id''" "primary_key (klass person_new) = Inr ''id''"
    by code_simp+
  have e: "endpoint (klass person3) = Inr ''persons''" "endpoint (klass person_new) = Inr ''persons''"
    by code_simp+
  have a: "attrs person3 ''id'' = Some (PInt 3)" "attrs person_new ''id'' = None"
    by (simp_all add: person3_def person_new_def)
  have s: "py_str opaque (PInt 3) = ''3''"
    by code_simp
  from resource_uri_path [OF p(1) e(1), of opaque] resource_uri_path [OF p(2) e(2), of opaque]
       p e a s
  show ?thesis by simp
qed

text \<open>
  C5 as stated lets the key segment be empty or absent before a key is assigned. The
  instance without an \<open>id\<close> has the URI \<open>/persons/None\<close>, neither \<open>/persons/\<close> nor
  \<open>/persons\<close>.
\<close>

theorem resource_uri_unassigned_key_counterexample:
  "attrs person_new ''id'' = None \<and>
   resource_uri opaque person_new = Inr ''/persons/None'' \<and>
   resource_uri opaque person_new \<noteq> Inr ''/persons/'' \<and>
   resource_uri opaque person_new \<noteq> Inr ''/persons''"
proof -
  have "attrs person_new ''id'' = None"
    by (simp add: person_new_def)
  moreover have "resource_uri opaque person_new = Inr ''/persons/None''"
    by code_simp
  ultimately show ?thesis by simp
qed

section \<open>The keys of the serialised dictionary\<close>


lemma as_dict_loop_apply:
  "as_dict_loop self cols d c =
     (if c \<in> set cols
      then Some (case py_getattr self c PNone of PDecimal x \<Rightarrow> PStr (decimal_str x) | v \<Rightarrow> v)
      else d c)"
  by (induction cols arbitrary: d) (auto simp: Let_def split: pyval.splits)

lemma links_Some:
  "primary_key (klass self) = Inr pk \<Longrightarrow> endpoint (klass self) = Inr ep \<Longrightarrow>
   links other self =
     Inr [PDict [(''rel'', PStr ''self''),
                 (''uri'', PStr (''/'' @ ep @ ''/'' @ py_str other (py_getattr self pk PNone)))]]"
  by (simp add: links_def resource_uri_Some)

lemma as_dict_Some:
  assumes "dunder_table (klass self) = Some t" and "primary_key_columns t = pk # more_keys"
    and "endpoint (klass self) = Inr ep"
  shows "as_dict other self =
     Inr ((as_dict_loop self (columns t) Map.empty)
            (''links'' \<mapsto> PList [PDict [(''rel'', PStr ''self''),
                 (''uri'', PStr (''/'' @ ep @ ''/'' @ py_str other (py_getattr self pk PNone)))]]))"
  using assms
  by (simp add: as_dict_def table_columns_Some links_Some primary_key_Some)




section \<open>Decimal values are serialised as strings\<close>

lemma nat_str_nonempty: "nat_str n \<noteq> []"
  by (subst nat_str.simps) simp

lemma digit_char_code: "d < 10 \<Longrightarrow> (of_char (digit_char d) :: nat) = 48 + d"
  by (simp add: digit_char_def)

lemma is_digit_digit_char: "d < 10 \<Longrightarrow> is_digit (digit_char d)"
  by (simp add: is_digit_def digit_char_code)

lemma nat_str_digits: "ch \<in> set (nat_str n) \<Longrightarrow> is_digit ch"
proof (induction n rule: nat_str.induct)
  case (1 n)
  show ?case
  proof (cases "n < 10")
    case True
    with "1.prems" show ?thesis
      by (subst (asm) nat_str.simps) (simp add: is_digit_digit_char)
  next
    case False
    with "1.prems" have "ch \<in> set (nat_str (n div 10)) \<or> ch = digit_char (n mod 10)"
      by (subst (asm) nat_str.simps) auto
    with False "1.IH" show ?thesis
      by (auto simp: is_digit_digit_char)
  qed
qed

lemma digits_value_snoc:
  "digits_value (ds @ [ch]) = 10 * digits_value ds + (of_char ch - 48)"
  by (simp add: digits_value_def)

lemma digits_value_nat_str: "digits_value (nat_str n) = n"
proof (induction n rule: nat_str.induct)
  case (1 n)
  show ?case
  proof (cases "n < 10")
    case True
    then show ?thesis
      by (subst nat_str.simps) (simp add: digits_value_def digit_char_code)
  next
    case False
    with "1.IH" have "digits_value (nat_str (n div 10)) = n div 10"
      by simp
    with False show ?thesis
      by (subst nat_str.simps) (simp add: digits_value_snoc digit_char_code)
  qed
qed

lemma digits_value_zeros: "digits_value (replicate k CHR ''0'' @ ds) = digits_value ds"
proof (induction k)
  case 0
  show ?case by simp
next
  case (Suc k)
  have "digits_value (CHR ''0'' # xs) = digits_value xs" for xs
    by (simp add: digits_value_def)
  with Suc show ?case by simp
qed

lemma signed_value_signed_str: "signed_value (signed_str i) = i"
  by (simp add: signed_value_def signed_str_def digits_value_nat_str)

lemma is_digit_not_symbol:
  assumes "is_digit ch"
  shows "ch \<noteq> CHR ''-''" "ch \<noteq> CHR ''E''" "ch \<noteq> CHR ''.''" "ch \<noteq> CHR ''I''"
    "ch \<noteq> CHR ''N''" "ch \<noteq> CHR ''s''"
  using assms by (auto simp: is_digit_def)

lemma mantissa_no_E:
  assumes "\<forall>ch\<in>set m. is_digit ch \<or> ch = CHR ''.''"
  shows "CHR ''E'' \<notin> set m"
  using assms is_digit_not_symbol(2) by auto

lemma parse_plain:
  assumes "m \<noteq> []" and "is_digit (hd m)" and "\<forall>ch\<in>set m. is_digit ch \<or> ch = CHR ''.''"
  shows "decimal_parse (sign_str s @ m) =
           Dec s (digits_value (filter (\<lambda>ch. ch \<noteq> CHR ''.'') m))
                 (- int (length (dropWhile (\<lambda>ch. ch \<noteq> CHR ''.'') m) - 1))"
proof -
  have h: "hd m \<noteq> CHR ''-''" "hd m \<noteq> CHR ''I''" "hd m \<noteq> CHR ''N''" "hd m \<noteq> CHR ''s''"
    using assms(2) is_digit_not_symbol by blast+
  have noE: "CHR ''E'' \<notin> set m"
    using assms(3) by (rule mantissa_no_E)
  then have t: "takeWhile (\<lambda>ch. ch \<noteq> CHR ''E'') m = m"
    by (simp add: takeWhile_eq_all_conv) blast
  show ?thesis
  proof (cases s)
    case True
    with assms(1) h noE show ?thesis
      by (simp add: decimal_parse_def sign_str_def Let_def t)
  next
    case False
    with assms(1) h noE show ?thesis
      by (simp add: decimal_parse_def sign_str_def Let_def t)
  qed
qed

lemma parse_sci:
  assumes "m \<noteq> []" and "is_digit (hd m)" and "\<forall>ch\<in>set m. is_digit ch \<or> ch = CHR ''.''"
  shows "decimal_parse (sign_str s @ m @ CHR ''E'' # x) =
           Dec s (digits_value (filter (\<lambda>ch. ch \<noteq> CHR ''.'') m))
                 (signed_value x + 1 - int (length (filter (\<lambda>ch. ch \<noteq> CHR ''.'') m)))"
proof -
  have h: "hd m \<noteq> CHR ''-''" "hd m \<noteq> CHR ''I''" "hd m \<noteq> CHR ''N''" "hd m \<noteq> CHR ''s''"
    using assms(2) is_digit_not_symbol by blast+
  have noE: "CHR ''E'' \<notin> set m"
    using assms(3) by (rule mantissa_no_E)
  then have t: "takeWhile (\<lambda>ch. ch \<noteq> CHR ''E'') (m @ CHR ''E'' # x) = m"
    by (subst takeWhile_append2) auto
  show ?thesis
  proof (cases s)
    case True
    with assms(1) h t show ?thesis
      by (simp add: decimal_parse_def sign_str_def Let_def)
  next
    case False
    with assms(1) h t show ?thesis
      by (simp add: decimal_parse_def sign_str_def Let_def)
  qed
qed

lemma filter_point_digits:
  "\<forall>ch\<in>set ds. is_digit ch \<Longrightarrow> filter (\<lambda>ch. ch \<noteq> CHR ''.'') ds = ds"
  using is_digit_not_symbol(3) by (auto simp: filter_id_conv)

lemma dropWhile_point_digits:
  "\<forall>ch\<in>set ds. is_digit ch \<Longrightarrow> dropWhile (\<lambda>ch. ch \<noteq> CHR ''.'') (ds @ rest) =
     dropWhile (\<lambda>ch. ch \<noteq> CHR ''.'') rest"
  using is_digit_not_symbol(3) by (intro dropWhile_append2) blast

lemma is_digit_zero: "is_digit CHR ''0''"
  by (simp add: is_digit_def)

lemma parse_str_Dec: "decimal_parse (decimal_str (Dec s c e)) = Dec s c e"
proof -
  define D where "D = nat_str c"
  define L where "L = int (length D)"
  have D: "D \<noteq> []" "\<forall>ch\<in>set D. is_digit ch" "digits_value D = c"
    by (simp_all add: D_def nat_str_nonempty nat_str_digits digits_value_nat_str)
  then have L: "1 \<le> L"
    by (cases D) (simp_all add: L_def)
  have hdD: "is_digit (hd D)"
    using D(1,2) by (cases D) simp_all
  have fD: "filter (\<lambda>ch. ch \<noteq> CHR ''.'') xs = xs" if "set xs \<subseteq> set D" for xs
    using that D(2) by (intro filter_point_digits) blast
  consider (a) "e \<le> 0" "- 6 < e + L" "e + L \<le> 0"
    | (b) "e = 0"
    | (c) "e < 0" "0 < e + L"
    | (s) "\<not> (e \<le> 0 \<and> - 6 < e + L)"
    by linarith
  then show ?thesis
  proof cases
    case a
    define m where "m = ''0.'' @ replicate (nat (- (e + L))) CHR ''0'' @ D"
    have str: "decimal_str (Dec s c e) = sign_str s @ m"
      using a by (simp add: Let_def m_def D_def [symmetric] L_def [symmetric])
    have m1: "m \<noteq> []" "is_digit (hd m)" "\<forall>ch\<in>set m. is_digit ch \<or> ch = CHR ''.''"
      using D(2) by (auto simp: m_def is_digit_zero)
    have "filter (\<lambda>ch. ch \<noteq> CHR ''.'') m = replicate (Suc (nat (- (e + L)))) CHR ''0'' @ D"
      by (simp add: m_def fD)
    then have v: "digits_value (filter (\<lambda>ch. ch \<noteq> CHR ''.'') m) = c"
      by (simp only: digits_value_zeros D(3))
    have "dropWhile (\<lambda>ch. ch \<noteq> CHR ''.'') m = CHR ''.'' # replicate (nat (- (e + L))) CHR ''0'' @ D"
      by (simp add: m_def)
    then have "int (length (dropWhile (\<lambda>ch. ch \<noteq> CHR ''.'') m) - 1) = - e"
      using a by (simp add: L_def)
    with v show ?thesis
      by (simp only: str parse_plain [OF m1]) simp
  next
    case b
    have str: "decimal_str (Dec s c e) = sign_str s @ D"
      using b L D(1) by (simp add: Let_def D_def [symmetric] L_def [symmetric])
    have m1: "D \<noteq> []" "is_digit (hd D)" "\<forall>ch\<in>set D. is_digit ch \<or> ch = CHR ''.''"
      using D hdD by auto
    have "dropWhile (\<lambda>ch. ch \<noteq> CHR ''.'') D = []"
      using dropWhile_point_digits [OF D(2), of "[]"] by simp
    then show ?thesis
      by (simp only: str parse_plain [OF m1]) (simp add: fD D(3) b)
  next
    case c
    define k where "k = nat (e + L)"
    define m where "m = take k D @ CHR ''.'' # drop k D"
    have k: "0 < k" "k < length D"
      using c by (simp_all add: k_def L_def)
    have str: "decimal_str (Dec s c e) = sign_str s @ m"
      using c by (simp add: Let_def m_def k_def D_def [symmetric] L_def [symmetric])
    have sub: "set (take k D) \<subseteq> set D" "set (drop k D) \<subseteq> set D"
      by (simp_all add: set_take_subset set_drop_subset)
    have "take k D \<noteq> []"
      using k D(1) by simp
    moreover have "hd (take k D) = hd D"
      using k by (simp add: hd_take)
    ultimately have m1: "m \<noteq> []" "is_digit (hd m)" "\<forall>ch\<in>set m. is_digit ch \<or> ch = CHR ''.''"
      using sub D(2) hdD by (auto simp: m_def)
    have "filter (\<lambda>ch. ch \<noteq> CHR ''.'') m = take k D @ drop k D"
      by (simp add: m_def fD sub)
    then have v: "digits_value (filter (\<lambda>ch. ch \<noteq> CHR ''.'') m) = c"
      by (simp add: D(3))
    have "\<forall>ch\<in>set (take k D). is_digit ch"
      using sub(1) D(2) by blast
    then have "dropWhile (\<lambda>ch. ch \<noteq> CHR ''.'') m = CHR ''.'' # drop k D"
      unfolding m_def by (subst dropWhile_point_digits) simp_all
    then have "int (length (dropWhile (\<lambda>ch. ch \<noteq> CHR ''.'') m) - 1) = - e"
      using c k by (simp add: k_def L_def)
    with v show ?thesis
      by (simp only: str parse_plain [OF m1]) simp
  next
    case s
    define m where "m = (if L = 1 then D else take 1 D @ CHR ''.'' # drop 1 D)"
    have ne: "e + L \<noteq> 1"
      using s L by linarith
    have str: "decimal_str (Dec s c e) = sign_str s @ m @ CHR ''E'' # signed_str (e + L - 1)"
      using s ne L by (auto simp: Let_def m_def D_def [symmetric] L_def [symmetric])
    have sub: "set (take 1 D) \<subseteq> set D" "set (drop 1 D) \<subseteq> set D"
      by (simp_all add: set_take_subset set_drop_subset)
    have "take 1 D \<noteq> []" "hd (take 1 D) = hd D"
      using D(1) by (cases D; simp)+
    then have m1: "m \<noteq> []" "is_digit (hd m)" "\<forall>ch\<in>set m. is_digit ch \<or> ch = CHR ''.''"
      using sub D hdD by (auto simp: m_def)
    have f: "filter (\<lambda>ch. ch \<noteq> CHR ''.'') m = D"
      using fD [OF sub(1)] fD [OF sub(2)] by (simp add: m_def fD)
    show ?thesis
      by (simp only: str parse_sci [OF m1] f D(3) signed_value_signed_str)
         (simp add: L_def)
  qed
qed

lemma parse_str_DecInf: "decimal_parse (decimal_str (DecInf s)) = DecInf s"
  by (simp add: decimal_parse_def sign_str_def)

lemma parse_str_DecNaN: "decimal_parse (decimal_str (DecNaN s g p)) = DecNaN s g p"
  by (simp add: decimal_parse_def sign_str_def digits_value_nat_str) (simp add: digits_value_def)

lemma decimal_parse_str: "decimal_parse (decimal_str d) = d"
  by (cases d) (simp_all only: parse_str_Dec parse_str_DecInf parse_str_DecNaN)

lemma decimal_str_inj: "decimal_str x = decimal_str y \<Longrightarrow> x = y"
  by (metis decimal_parse_str)

lemma decimal_str_nonempty: "decimal_str x \<noteq> []"
proof (cases x)
  case (Dec s c e)
  have "0 < i \<Longrightarrow> take (nat i) (nat_str c) \<noteq> []" for i :: int
    by (simp add: nat_str_nonempty)
  then show ?thesis
    by (simp add: Dec Let_def nat_str_nonempty)
qed simp_all

lemma truthy_stringified:
  "truthy v \<Longrightarrow> truthy (case v of PDecimal x \<Rightarrow> PStr (decimal_str x) | w \<Rightarrow> w)"
  by (cases v) (simp_all add: decimal_str_nonempty)




section \<open>Round trip through the dictionary\<close>

text \<open>
  C3, as the code has it. Let every column of the instance hold a truthy value, let the
  instance have no attribute named \<open>links\<close> (one that would hide the method), and let
  the target be an instance of the same class, a fresh one for example. Then
  \<open>as_dict\<close> followed by \<open>from_dict\<close> on the target returns, and on every column the
  target then holds the original value, except that a \<open>Decimal\<close> has become its
  string. So a column whose value is not a \<open>Decimal\<close> is equal on both instances.
\<close>

theorem round_trip_columns:
  assumes "dunder_table (klass self) = Some t" and "primary_key_columns t \<noteq> []"
    and "endpoint (klass self) = Inr ep"
    and "\<forall>k\<in>set (columns t). truthy (py_getattr self k PNone)"
    and "klass target = klass self"
    and "c \<in> set (columns t)" and "attrs self ''links'' = None"
  shows "\<exists>s. round_trip other self target = Inr s \<and>
           attrs s c =
             Some (case py_getattr self c PNone of PDecimal x \<Rightarrow> PStr (decimal_str x) | v \<Rightarrow> v) \<and>
           ((\<forall>x. attrs self c \<noteq> Some (PDecimal x)) \<longrightarrow> attrs s c = attrs self c)"
proof -
  from assms(2) obtain pk more_keys where pk: "primary_key_columns t = pk # more_keys"
    by (cases "primary_key_columns t") auto
  define d where "d = (as_dict_loop self (columns t) Map.empty)
     (''links'' \<mapsto> PList [PDict [(''rel'', PStr ''self''),
        (''uri'', PStr (''/'' @ ep @ ''/'' @ py_str other (py_getattr self pk PNone)))]])"
  let ?v = "py_getattr self c PNone"
  let ?w = "case ?v of PDecimal x \<Rightarrow> PStr (decimal_str x) | v \<Rightarrow> v"
  have a: "as_dict other self = Inr d"
    unfolding d_def using assms(1) pk assms(3) by (rule as_dict_Some)
  have "dunder_table (klass target) = Some t"
    using assms(1,5) by simp
  then have f: "from_dict target d = Inr (from_dict_loop d (columns t) target)"
    by (rule from_dict_Some)
  have tv: "truthy ?v"
    using assms(4,6) by blast
  then have "c \<noteq> ''links''"
    using assms(7) by (auto simp: py_getattr_def)
  then have dc: "d c = Some ?w"
    using assms(6) by (simp add: d_def as_dict_loop_apply)
  from tv have "truthy ?w"
    by (rule truthy_stringified)
  with dc assms(6) have s: "attrs (from_dict_loop d (columns t) target) c = Some ?w"
    by (simp add: attrs_from_dict_loop dict_get_def)
  have "attrs self c = Some ?v"
    using tv by (cases "attrs self c") (simp_all add: py_getattr_def)
  then have "(\<forall>x. attrs self c \<noteq> Some (PDecimal x)) \<longrightarrow> Some ?w = attrs self c"
    by (cases ?v) simp_all
  with a f s show ?thesis
    by (simp add: round_trip_def)
qed

theorem round_trip_columns_witness:
  "dunder_table (klass person3) = Some person_table \<and> primary_key_columns person_table \<noteq> [] \<and>
   endpoint (klass person3) = Inr ''persons'' \<and>
   truthy (py_getattr person3 ''id'' PNone) \<and> truthy (py_getattr person3 ''name'' PNone) \<and>
   klass (fresh person_class) = klass person3 \<and>
   ''name'' \<in> set (columns person_table) \<and> attrs person3 ''links'' = None \<and>
   (\<exists>s. round_trip opaque person3 (fresh person_class) = Inr s \<and>
      attrs s ''name'' = Some (PStr ''Ann'') \<and> attrs s ''name'' = attrs person3 ''name'')"
proof -
  have t: "dunder_table (klass person3) = Some person_table"
    by (simp add: person3_def person_class_def)
  have k: "primary_key_columns person_table \<noteq> []"
    by (simp add: person_table_def)
  have e: "endpoint (klass person3) = Inr ''persons''"
    by code_simp
  have v: "truthy (py_getattr person3 ''id'' PNone)" "truthy (py_getattr person3 ''name'' PNone)"
    by (simp_all add: py_getattr_def person3_def)
  then have a: "\<forall>k\<in>set (columns person_table). truthy (py_getattr person3 k PNone)"
    by (simp add: person_table_def)
  have f: "klass (fresh person_class) = klass person3"
    by (simp add: fresh_def person3_def)
  have c: "''name'' \<in> set (columns person_table)"
    by (simp add: person_table_def)
  have n: "attrs person3 ''links'' = None"
    by (simp add: person3_def)
  have g: "py_getattr person3 ''name'' PNone = PStr ''Ann''" "attrs person3 ''name'' = Some (PStr ''Ann'')"
    by (simp_all add: py_getattr_def person3_def)
  from round_trip_columns [OF t k e a f c n, of opaque] g
  obtain s where "round_trip opaque person3 (fresh person_class) = Inr s"
    "attrs s ''name'' = Some (PStr ''Ann'')"
    by auto
  with t k e v f c n g show ?thesis by auto
qed

text \<open>
  C3 as stated promises equality on every column. A product with the truthy columns
  \<open>id = 7\<close> and \<open>price = Decimal('12.50')\<close> comes back with the string \<open>12.50\<close> as
  its price.
\<close>

theorem round_trip_decimal_counterexample:
  "columns product_table = [''id'', ''price''] \<and>
   truthy (py_getattr product7 ''id'' PNone) \<and> truthy (py_getattr product7 ''price'' PNone) \<and>
   attr_of (round_trip opaque product7 (fresh product_class)) ''price'' = Inr (PStr ''12.50'') \<and>
   attr_of (Inr product7) ''price'' = Inr (PDecimal (Dec False 1250 (- 2))) \<and>
   attr_of (round_trip opaque product7 (fresh product_class)) ''price'' \<noteq>
     attr_of (Inr product7) ''price''"
proof -
  have "columns product_table = [''id'', ''price'']"
    by (simp add: product_table_def)
  moreover have "truthy (py_getattr product7 ''id'' PNone)" "truthy (py_getattr product7 ''price'' PNone)"
    by (simp_all add: py_getattr_def product7_def)
  moreover have "attr_of (round_trip opaque product7 (fresh product_class)) ''price'' = Inr (PStr ''12.50'')"
    by code_simp
  moreover have "attr_of (Inr product7) ''price'' = Inr (PDecimal (Dec False 1250 (- 2)))"
    by (simp add: attr_of_def py_getattr_def product7_def)
  ultimately show ?thesis by simp
qed

section \<open>Registering twice under one name\<close>

lemma register_entries_valid:
  "\<forall>c\<in>set cs. \<exists>n. endpoint c = Inr n \<Longrightarrow> fst (register_entries cs reg) = None"
  by (induction cs arbitrary: reg) auto

lemma register_entries_keeps:
  "\<forall>c\<in>set cs. \<exists>n. endpoint c = Inr n \<and> n \<noteq> name \<Longrightarrow>
   snd (register_entries cs reg) name = reg name"
  by (induction cs arbitrary: reg) auto

lemma register_entries_append:
  "fst (register_entries xs reg) = None \<Longrightarrow>
   register_entries (xs @ ys) reg = register_entries ys (snd (register_entries xs reg))"
  by (induction xs arbitrary: reg) (auto split: sum.splits)

lemma register_entries_last:
  assumes "\<forall>c\<in>set before. \<exists>n. endpoint c = Inr n" and "endpoint c2 = Inr name"
    and "\<forall>c\<in>set after. \<exists>n. endpoint c = Inr n \<and> n \<noteq> name"
  shows "\<exists>m. register_entries (before @ c2 # after) reg = (None, m) \<and> m name = Some c2"
proof -
  let ?r = "snd (register_entries before reg)"
  have "fst (register_entries before reg) = None"
    using assms(1) by (rule register_entries_valid)
  then have 1: "register_entries (before @ c2 # after) reg =
      register_entries after (?r(name \<mapsto> c2))"
    using assms(2) by (simp add: register_entries_append)
  have "\<forall>c\<in>set after. \<exists>n. endpoint c = Inr n"
    using assms(3) by blast
  then have 2: "fst (register_entries after (?r(name \<mapsto> c2))) = None"
    by (rule register_entries_valid)
  have 3: "snd (register_entries after (?r(name \<mapsto> c2))) name = Some c2"
    using assms(3) by (simp add: register_entries_keeps)
  from 1 2 3 show ?thesis
    by (metis prod.collapse)
qed

lemma register_Sequence:
  "register_entries cs (case endpoint_classes a of None \<Rightarrow> Map.empty | Some m \<Rightarrow> m) = (None, m') \<Longrightarrow>
   register p (Sequence cs) a = (p, a\<lparr>endpoint_classes := Some m'\<rparr>)"
  by (simp add: register_def)

text \<open>
  C8. Two classes with the same endpoint name are registered one after the other, by
  two calls or as entries of one sequence (with other classes before, between and after
  them, none of those after under that name). No call raises anything but what
  reflection raises (the error of the result is the outcome of \<open>prepare\<close>), and the
  registry then has the second class under that name.
\<close>

theorem register_last_write_wins:
  assumes "endpoint c1 = Inr name" and "endpoint c2 = Inr name"
  shows "(\<exists>m. register p2 (Single c2) (snd (register p1 (Single c1) a)) =
                (p2, a\<lparr>endpoint_classes := Some m\<rparr>) \<and> m name = Some c2) \<and>
         ((\<forall>c\<in>set (before @ between). \<exists>n. endpoint c = Inr n) \<and>
          (\<forall>c\<in>set after. \<exists>n. endpoint c = Inr n \<and> n \<noteq> name) \<longrightarrow>
            (\<exists>m. register p (Sequence (before @ c1 # between @ c2 # after)) a =
                   (p, a\<lparr>endpoint_classes := Some m\<rparr>) \<and> m name = Some c2))"
proof (intro conjI impI)
  let ?r = "case endpoint_classes a of None \<Rightarrow> Map.empty | Some m \<Rightarrow> m"
  have 1: "snd (register p1 (Single c1) a) = a\<lparr>endpoint_classes := Some (?r(name \<mapsto> c1))\<rparr>"
    using assms by (simp add: register_def)
  have 2: "register p2 (Single c2) (a\<lparr>endpoint_classes := Some (?r(name \<mapsto> c1))\<rparr>) =
             (p2, a\<lparr>endpoint_classes := Some (?r(name \<mapsto> c2))\<rparr>)"
    using assms by (simp add: register_def)
  have "(?r(name \<mapsto> c2)) name = Some c2"
    by simp
  with 1 2 show "\<exists>m. register p2 (Single c2) (snd (register p1 (Single c1) a)) =
                (p2, a\<lparr>endpoint_classes := Some m\<rparr>) \<and> m name = Some c2"
    by (metis (no_types))
next
  let ?r = "case endpoint_classes a of None \<Rightarrow> Map.empty | Some m \<Rightarrow> m"
  assume h: "(\<forall>c\<in>set (before @ between). \<exists>n. endpoint c = Inr n) \<and>
          (\<forall>c\<in>set after. \<exists>n. endpoint c = Inr n \<and> n \<noteq> name)"
  then have "\<forall>c\<in>set (before @ c1 # between). \<exists>n. endpoint c = Inr n"
    using assms(1) by auto
  from register_entries_last [OF this assms(2), of after ?r] h
  obtain m where "register_entries ((before @ c1 # between) @ c2 # after) ?r = (None, m)"
    and m: "m name = Some c2"
    by blast
  then have "register p (Sequence (before @ c1 # between @ c2 # after)) a =
      (p, a\<lparr>endpoint_classes := Some m\<rparr>)"
    by (simp add: register_Sequence)
  with m show "\<exists>m. register p (Sequence (before @ c1 # between @ c2 # after)) a =
                   (p, a\<lparr>endpoint_classes := Some m\<rparr>) \<and> m name = Some c2"
    by blast
qed

theorem register_last_write_wins_witness:
  "endpoint person_class = Inr ''persons'' \<and> endpoint customer_class = Inr ''persons'' \<and>
   person_class \<noteq> customer_class \<and>
   (\<exists>m. register None (Single customer_class)
           (snd (register None (Single person_class) \<lparr>endpoint_classes = None\<rparr>)) =
         (None, \<lparr>endpoint_classes = Some m\<rparr>) \<and> m ''persons'' = Some customer_class) \<and>
   (\<exists>m. register None (Sequence [person_class, customer_class]) \<lparr>endpoint_classes = None\<rparr> =
         (None, \<lparr>endpoint_classes = Some m\<rparr>) \<and> m ''persons'' = Some customer_class)"
proof -
  have e: "endpoint person_class = Inr ''persons''" "endpoint customer_class = Inr ''persons''"
    by code_simp+
  have d: "person_class \<noteq> customer_class"
    by (simp add: person_class_def customer_class_def)
  from register_last_write_wins [OF e, of None None "\<lparr>endpoint_classes = None\<rparr>" "[]" "[]" "[]" None]
       e d
  show ?thesis by simp
qed

end
